theory Spec2Isabelle
  imports Main
begin

section \<open>Python values: strings, errors\<close>

text \<open>
  A Python \<^verbatim>\<open>str\<close> is a sequence of Unicode code points, so a character is modelled
  as its code point and a string as a list of code points. \<open>pystr_of\<close> turns an
  ASCII literal into such a string.
\<close>

type_synonym pychar = nat
type_synonym pystr = "pychar list"

definition pystr_of :: "string \<Rightarrow> pystr" where
  "pystr_of s = map of_char s"

text \<open>The arguments a caller may hand to a method that expects a \<^verbatim>\<open>str\<close>.\<close>

datatype pyval = PyStr pystr | PyBytes "nat list" | PyInt int | PyNone

definition slice :: "nat \<Rightarrow> nat \<Rightarrow> 'a list \<Rightarrow> 'a list" where
  \<comment> \<open>\<^verbatim>\<open>s[a:b]\<close> for \<open>0 \<le> a \<le> b\<close>; Python clips the bounds to the length, as
     \<open>take\<close> and \<open>drop\<close> do.\<close>
  "slice a b s = take (b - a) (drop a s)"

text \<open>\<^verbatim>\<open>xs in ys\<close> on strings is the substring test.\<close>

fun is_substring :: "'a list \<Rightarrow> 'a list \<Rightarrow> bool" where
  "is_substring xs [] = (xs = [])"
| "is_substring xs (y # ys) = (take (length xs) (y # ys) = xs \<or> is_substring xs ys)"

definition digits :: pystr where
  \<comment> \<open>\<^verbatim>\<open>string.digits\<close>\<close>
  "digits = pystr_of ''0123456789''"

text \<open>
  The exceptions of the module, one constructor per \<^verbatim>\<open>raise\<close>, named by the kind of
  failure. In Python \<open>TypeError\<close> is \<^verbatim>\<open>TypeError\<close>, \<open>NotSupported\<close> is
  \<^verbatim>\<open>NotImplementedError\<close> and all the others are \<^verbatim>\<open>ValueError\<close>s that differ
  in their message; the payload is the value the message echoes.
\<close>

datatype date_part = YearPart | MonthPart | DayPart

datatype error =
    TypeError
  | NotSupported string
  | InvalidCombination int "int option" "int option"
  | InvalidDate date_part
  | InvalidLength pystr
  | InvalidSeparator pychar
  | InconsistentMarker pystr
  | InvalidYear pystr
  | InvalidMarker pystr

section \<open>The built-in conversions between integers and strings\<close>

subsection \<open>\<^verbatim>\<open>int(s)\<close> on a string\<close>

text \<open>
  \<^verbatim>\<open>int\<close> accepts, in base ten: optional white space, an optional sign, decimal
  digits with single underscores between them, optional white space. A digit is
  any Unicode decimal digit (general category Nd), not only \<^verbatim>\<open>0\<close> to \<^verbatim>\<open>9\<close>;
  outside ASCII, white space is what \<^verbatim>\<open>str.isspace\<close> accepts. The tables are those of
  Unicode 14.0 (CPython 3.11).
\<close>

definition nd_blocks :: "nat list" where
  \<comment> \<open>first code points of the ten-digit blocks outside ASCII\<close>
  "nd_blocks =
    [0x660, 0x6F0, 0x7C0, 0x966, 0x9E6, 0xA66, 0xAE6, 0xB66, 0xBE6, 0xC66, 0xCE6, 0xD66,
     0xDE6, 0xE50, 0xED0, 0xF20, 0x1040, 0x1090, 0x17E0, 0x1810, 0x1946, 0x19D0, 0x1A80,
     0x1A90, 0x1B50, 0x1BB0, 0x1C40, 0x1C50, 0xA620, 0xA8D0, 0xA900, 0xA9D0, 0xA9F0,
     0xAA50, 0xABF0, 0xFF10, 0x104A0, 0x10D30, 0x11066, 0x110F0, 0x11136, 0x111D0,
     0x112F0, 0x11450, 0x114D0, 0x11650, 0x116C0, 0x11730, 0x118E0, 0x11950, 0x11C50,
     0x11D50, 0x11DA0, 0x16A60, 0x16AC0, 0x16B50, 0x1E140, 0x1E2F0, 0x1E950, 0x1FBF0]"

definition digit_val :: "pychar \<Rightarrow> nat option" where
  "digit_val c =
     (if c < 127 then (if 0x30 \<le> c \<and> c \<le> 0x39 then Some (c - 0x30) else None)
      else case find (\<lambda>b. b \<le> c \<and> c < b + 10) nd_blocks of
             Some b \<Rightarrow> Some (c - b)
           | None \<Rightarrow>
               \<comment> \<open>the five runs of mathematical digits\<close>
               if 0x1D7CE \<le> c \<and> c \<le> 0x1D7FF then Some ((c - 0x1D7CE) mod 10) else None)"

definition unicode_spaces :: "nat list" where
  "unicode_spaces =
    [0x85, 0xA0, 0x1680, 0x2000, 0x2001, 0x2002, 0x2003, 0x2004, 0x2005, 0x2006, 0x2007,
     0x2008, 0x2009, 0x200A, 0x2028, 0x2029, 0x202F, 0x205F, 0x3000]"

definition is_space :: "pychar \<Rightarrow> bool" where
  "is_space c =
     (if c < 127 then (9 \<le> c \<and> c \<le> 13) \<or> c = 0x20 else c \<in> set unicode_spaces)"

text \<open>The digits after the first, with the value read so far.\<close>

fun int_digits :: "nat \<Rightarrow> pystr \<Rightarrow> nat option" where
  "int_digits acc [] = Some acc"
| "int_digits acc (c # cs) =
     (case digit_val c of
        Some d \<Rightarrow> int_digits (10 * acc + d) cs
      | None \<Rightarrow>
          if c = of_char CHR ''_'' then
            (case cs of
               [] \<Rightarrow> None
             | c' # cs' \<Rightarrow>
                 (case digit_val c' of
                    None \<Rightarrow> None
                  | Some d \<Rightarrow> int_digits (10 * acc + d) cs'))
          else if list_all is_space (c # cs) then Some acc
          else None)"

definition int_body :: "pystr \<Rightarrow> nat option" where
  "int_body s =
     (case s of
        [] \<Rightarrow> None
      | c # cs \<Rightarrow> (case digit_val c of None \<Rightarrow> None | Some d \<Rightarrow> int_digits d cs))"

definition py_int :: "pystr \<Rightarrow> int option" where
  \<comment> \<open>\<open>None\<close> is the \<^verbatim>\<open>ValueError\<close> of \<^verbatim>\<open>int\<close>\<close>
  "py_int s =
     (case dropWhile is_space s of
        [] \<Rightarrow> None
      | c # cs \<Rightarrow>
          if c = of_char CHR ''+'' then map_option int (int_body cs)
          else if c = of_char CHR ''-'' then map_option (\<lambda>n. - int n) (int_body cs)
          else map_option int (int_body (c # cs)))"

subsection \<open>\<^verbatim>\<open>str(n)\<close> and \<^verbatim>\<open>"%0wd" % n\<close> on an integer\<close>

fun dec_digits :: "nat \<Rightarrow> pystr" where
  "dec_digits n = (if n < 10 then [0x30 + n] else dec_digits (n div 10) @ [0x30 + n mod 10])"

declare dec_digits.simps [simp del]

definition py_str_int :: "int \<Rightarrow> pystr" where
  "py_str_int n =
     (if n < 0 then of_char CHR ''-'' # dec_digits (nat (- n)) else dec_digits (nat n))"

definition zfill :: "nat \<Rightarrow> pystr \<Rightarrow> pystr" where
  "zfill w s = replicate (w - length s) 0x30 @ s"

definition fmt_0d :: "nat \<Rightarrow> int \<Rightarrow> pystr" where
  \<comment> \<open>the sign counts in the width: \<^verbatim>\<open>"%04d" % -5 == "-005"\<close>\<close>
  "fmt_0d w n =
     (if n < 0 then of_char CHR ''-'' # zfill (w - 1) (dec_digits (nat (- n)))
      else zfill w (dec_digits (nat n)))"

section \<open>The exact date type \<^verbatim>\<open>datetime.date\<close>\<close>

record date =
  year :: int
  month :: int
  day :: int

definition MINYEAR :: int where "MINYEAR = 1"
definition MAXYEAR :: int where "MAXYEAR = 9999"

definition is_leap :: "int \<Rightarrow> bool" where
  "is_leap y = (y mod 4 = 0 \<and> (y mod 100 \<noteq> 0 \<or> y mod 400 = 0))"

definition DAYS_IN_MONTH :: "int list" where
  "DAYS_IN_MONTH = [-1, 31, 28, 31, 30, 31, 30, 31, 31, 30, 31, 30, 31]"

text \<open>Only called with \<open>1 \<le> m \<le> 12\<close>, after the month check.\<close>

definition days_in_month :: "int \<Rightarrow> int \<Rightarrow> int" where
  "days_in_month y m = (if m = 2 \<and> is_leap y then 29 else DAYS_IN_MONTH ! nat m)"

text \<open>\<^verbatim>\<open>date.__new__\<close>: the field checks in their order, then the instance.\<close>

definition date_new :: "int \<Rightarrow> int \<Rightarrow> int \<Rightarrow> error + date" where
  "date_new y m d =
     (if \<not> (MINYEAR \<le> y \<and> y \<le> MAXYEAR) then Inl (InvalidDate YearPart)
      else if \<not> (1 \<le> m \<and> m \<le> 12) then Inl (InvalidDate MonthPart)
      else if \<not> (1 \<le> d \<and> d \<le> days_in_month y m) then Inl (InvalidDate DayPart)
      else Inr \<lparr>year = y, month = m, day = d\<rparr>)"

section \<open>The class \<^verbatim>\<open>fuzzydate\<close>\<close>

record fuzzydate = date +
  fuzzy_month :: bool
  fuzzy_day :: bool

text \<open>\<^verbatim>\<open>fuzzydate.__new__(cls, year, month=None, day=None)\<close>\<close>

definition fuzzydate_new :: "int \<Rightarrow> int option \<Rightarrow> int option \<Rightarrow> error + fuzzydate" where
  "fuzzydate_new y m d =
     (let fm = (m = None); fd = (d = None) in
      if fm \<and> \<not> fd then Inl (InvalidCombination y m d)
      else
        let m' = (case m of None \<Rightarrow> 1 | Some v \<Rightarrow> v);
            d' = (case d of None \<Rightarrow> 1 | Some v \<Rightarrow> v)
        in case date_new y m' d' of
             Inl e \<Rightarrow> Inl e
           | Inr self \<Rightarrow> Inr (date.extend self (fuzzydate.fields fm fd)))"

text \<open>\<^verbatim>\<open>fromisoformat\<close> and \<^verbatim>\<open>isoformat\<close>: the inherited entry points, disabled.\<close>

definition fromisoformat :: "pyval \<Rightarrow> error + fuzzydate" where
  "fromisoformat date_string =
     Inl (NotSupported
       ''`fromisoformat` is not supported for fuzzy dates; use `fuzzy_fromisoformat` instead'')"

definition isoformat :: "fuzzydate \<Rightarrow> error + pystr" where
  "isoformat self =
     Inl (NotSupported
       ''`isoformat` is not supported for fuzzy dates; use `fuzzy_isoformat` instead'')"

subsection \<open>\<^verbatim>\<open>fuzzy_fromisoformat\<close>\<close>

text \<open>The loop over the two separators: the first that is not a hyphen is reported.\<close>

fun first_bad_sep :: "pychar list \<Rightarrow> pychar option" where
  "first_bad_sep [] = None"
| "first_bad_sep (sep # seps) =
     (if sep \<noteq> of_char CHR ''-'' then Some sep else first_bad_sep seps)"

text \<open>The three \<^verbatim>\<open>try\<close> blocks; an absent field is \<open>None\<close>.\<close>

definition day_field :: "pystr \<Rightarrow> pystr \<Rightarrow> error + int option" where
  "day_field date_string dd =
     (case py_int dd of
        Some n \<Rightarrow> Inr (Some n)
      | None \<Rightarrow>
          if dd ! 0 \<noteq> dd ! 1 then Inl (InconsistentMarker date_string) else Inr None)"

definition month_field :: "pystr \<Rightarrow> pystr \<Rightarrow> pystr \<Rightarrow> int option \<Rightarrow> error + int option" where
  "month_field date_string mm dd dv =
     (case py_int mm of
        Some n \<Rightarrow> Inr (Some n)
      | None \<Rightarrow>
          if mm ! 0 \<noteq> mm ! 1 \<or> (dv = None \<and> mm ! 0 \<noteq> dd ! 0)
          then Inl (InconsistentMarker date_string)
          else Inr None)"

definition year_field :: "pystr \<Rightarrow> error + int" where
  "year_field yyyy = (case py_int yyyy of Some n \<Rightarrow> Inr n | None \<Rightarrow> Inl (InvalidYear yyyy))"

definition fuzzy_fromisoformat :: "pyval \<Rightarrow> error + fuzzydate" where
  "fuzzy_fromisoformat v =
     (case v of
        PyStr date_string \<Rightarrow>
          if length date_string \<noteq> 10 then Inl (InvalidLength date_string)
          else
            (case first_bad_sep [date_string ! 4, date_string ! 7] of
               Some sep \<Rightarrow> Inl (InvalidSeparator sep)
             | None \<Rightarrow>
                 let yyyy = slice 0 4 date_string;
                     mm = slice 5 7 date_string;
                     dd = slice 8 10 date_string
                 in case day_field date_string dd of
                      Inl e \<Rightarrow> Inl e
                    | Inr dv \<Rightarrow>
                        (case month_field date_string mm dd dv of
                           Inl e \<Rightarrow> Inl e
                         | Inr mv \<Rightarrow>
                             (case year_field yyyy of
                                Inl e \<Rightarrow> Inl e
                              | Inr yv \<Rightarrow> fuzzydate_new yv mv dv)))
      | _ \<Rightarrow> Inl TypeError)"

subsection \<open>\<^verbatim>\<open>fuzzy_isoformat\<close>, \<^verbatim>\<open>__str__\<close> and \<^verbatim>\<open>__repr__\<close>\<close>

definition fuzzy_isoformat :: "fuzzydate \<Rightarrow> pystr \<Rightarrow> error + pystr" where
  "fuzzy_isoformat self marker =
     (if length marker \<noteq> 1 \<or> is_substring marker digits then Inl (InvalidMarker marker)
      else
        let yyyy = fmt_0d 4 (year self);
            mm = (if fuzzy_month self then marker @ marker else fmt_0d 2 (month self));
            dd = (if fuzzy_day self then marker @ marker else fmt_0d 2 (day self))
        in Inr (yyyy @ pystr_of ''-'' @ mm @ pystr_of ''-'' @ dd))"

definition default_marker :: pystr where
  "default_marker = pystr_of ''?''"

text \<open>\<^verbatim>\<open>__str__ = fuzzy_isoformat\<close>: \<^verbatim>\<open>str(d)\<close> calls it with the default marker.\<close>

definition fuzzydate_str :: "fuzzydate \<Rightarrow> error + pystr" where
  "fuzzydate_str self = fuzzy_isoformat self default_marker"

text \<open>How an f-string renders an \<^verbatim>\<open>int\<close> or \<^verbatim>\<open>None\<close>.\<close>

definition py_str_opt :: "int option \<Rightarrow> pystr" where
  "py_str_opt v = (case v of None \<Rightarrow> pystr_of ''None'' | Some n \<Rightarrow> py_str_int n)"

definition fuzzydate_repr :: "fuzzydate \<Rightarrow> pystr" where
  "fuzzydate_repr self =
     (let mv = (if fuzzy_month self then None else Some (month self));
          dv = (if fuzzy_day self then None else Some (day self))
      in pystr_of ''fuzzydate'' @ pystr_of ''('' @ py_str_int (year self) @ pystr_of '', ''
         @ py_str_opt mv @ pystr_of '', '' @ py_str_opt dv @ pystr_of '')'')"

subsection \<open>Comparison and hashing, inherited from \<^verbatim>\<open>date\<close>\<close>

text \<open>
  \<^verbatim>\<open>date\<close> compares and hashes the stored triple \<open>(year, month, day)\<close>; the methods
  are not overridden, so they are defined on any extension of the \<open>date\<close> record.
\<close>

definition date_key :: "'a date_scheme \<Rightarrow> int \<times> int \<times> int" where
  "date_key self = (year self, month self, day self)"

definition date_eq :: "'a date_scheme \<Rightarrow> 'b date_scheme \<Rightarrow> bool" where
  "date_eq self other = (date_key self = date_key other)"

definition date_lt :: "'a date_scheme \<Rightarrow> 'b date_scheme \<Rightarrow> bool" where
  "date_lt self other =
     (year self < year other \<or>
      (year self = year other \<and>
        (month self < month other \<or> (month self = month other \<and> day self < day other))))"

definition date_le :: "'a date_scheme \<Rightarrow> 'b date_scheme \<Rightarrow> bool" where
  "date_le self other = (date_lt self other \<or> date_eq self other)"

definition date_hash :: "(int \<times> int \<times> int \<Rightarrow> int) \<Rightarrow> 'a date_scheme \<Rightarrow> int" where
  \<comment> \<open>\<open>h\<close> is the interpreter's hash of the state\<close>
  "date_hash h self = h (date_key self)"

section \<open>Notions of the specification\<close>

text \<open>
  Calendar validity as the exact date type understands it: a year the type
  supports, a month of the year, a day of that month, February having 29 days in
  leap years.
\<close>

definition month_length :: "int \<Rightarrow> int \<Rightarrow> int" where
  "month_length y m =
     (if m = 2 then (if is_leap y then 29 else 28)
      else if m = 4 \<or> m = 6 \<or> m = 9 \<or> m = 11 then 30
      else 31)"

definition valid_date :: "int \<Rightarrow> int \<Rightarrow> int \<Rightarrow> bool" where
  "valid_date y m d =
     (1 \<le> y \<and> y \<le> 9999 \<and> 1 \<le> m \<and> m \<le> 12 \<and> 1 \<le> d \<and> d \<le> month_length y m)"

text \<open>An absent field stands for 1.\<close>

definition or_one :: "int option \<Rightarrow> int" where
  "or_one v = (case v of None \<Rightarrow> 1 | Some n \<Rightarrow> n)"

text \<open>The logical value of a field: absent when the field is fuzzy.\<close>

definition logical_month :: "fuzzydate \<Rightarrow> int option" where
  "logical_month self = (if fuzzy_month self then None else Some (month self))"

definition logical_day :: "fuzzydate \<Rightarrow> int option" where
  "logical_day self = (if fuzzy_day self then None else Some (day self))"

section \<open>Properties\<close>

subsection \<open>Construction\<close>

lemma days_in_month_eq: "1 \<le> m \<Longrightarrow> m \<le> 12 \<Longrightarrow> days_in_month y m = month_length y m"
proof -
  assume "1 \<le> m" "m \<le> 12"
  then have "m = 1 \<or> m = 2 \<or> m = 3 \<or> m = 4 \<or> m = 5 \<or> m = 6 \<or> m = 7 \<or> m = 8 \<or> m = 9
      \<or> m = 10 \<or> m = 11 \<or> m = 12" by arith
  then show ?thesis
    by (elim disjE) (simp_all add: days_in_month_def month_length_def DAYS_IN_MONTH_def)
qed

lemma date_new_valid:
  "valid_date y m d \<Longrightarrow> date_new y m d = Inr \<lparr>year = y, month = m, day = d\<rparr>"
  by (simp add: valid_date_def date_new_def MINYEAR_def MAXYEAR_def days_in_month_eq)

lemma date_new_invalid:
  "\<not> valid_date y m d \<Longrightarrow> \<exists>p. date_new y m d = Inl (InvalidDate p)"
  by (auto simp: valid_date_def date_new_def MINYEAR_def MAXYEAR_def days_in_month_eq)

lemma date_new_Inr:
  "date_new y m d = Inr self \<Longrightarrow> valid_date y m d \<and> self = \<lparr>year = y, month = m, day = d\<rparr>"
  using date_new_valid [of y m d] date_new_invalid [of y m d] by (cases "valid_date y m d") auto

lemma fuzzydate_new_valid:
  assumes "\<not> (m = None \<and> d \<noteq> None)" and "valid_date y (or_one m) (or_one d)"
  shows "fuzzydate_new y m d =
    Inr \<lparr>year = y, month = or_one m, day = or_one d,
         fuzzy_month = (m = None), fuzzy_day = (d = None)\<rparr>"
proof -
  have "date_new y (or_one m) (or_one d) = Inr \<lparr>year = y, month = or_one m, day = or_one d\<rparr>"
    using assms(2) by (rule date_new_valid)
  then have "date_new y (case m of None \<Rightarrow> 1 | Some v \<Rightarrow> v) (case d of None \<Rightarrow> 1 | Some v \<Rightarrow> v)
      = Inr \<lparr>year = y, month = or_one m, day = or_one d\<rparr>"
    by (simp add: or_one_def)
  with assms(1) show ?thesis
    by (simp add: fuzzydate_new_def Let_def date.extend_def fuzzydate.fields_def)
qed

text \<open>
  C2. The constructor fails with \<open>InvalidCombination\<close>, echoing the triple, when the
  month is absent and the day is present. Otherwise, when the triple with absent
  fields replaced by 1 is a valid calendar date, it succeeds and the year, the logical
  month and day and the fuzzy flags are those of the input; and when that triple is not
  a valid date it fails with \<open>InvalidDate\<close>.
\<close>

theorem fuzzydate_new_contract:
  "(m = None \<and> d \<noteq> None \<longrightarrow> fuzzydate_new y m d = Inl (InvalidCombination y m d)) \<and>
   (\<not> (m = None \<and> d \<noteq> None) \<and> valid_date y (or_one m) (or_one d) \<longrightarrow>
      (\<exists>self. fuzzydate_new y m d = Inr self \<and> year self = y \<and>
         logical_month self = m \<and> logical_day self = d \<and>
         fuzzy_month self = (m = None) \<and> fuzzy_day self = (d = None))) \<and>
   (\<not> (m = None \<and> d \<noteq> None) \<and> \<not> valid_date y (or_one m) (or_one d) \<longrightarrow>
      (\<exists>p. fuzzydate_new y m d = Inl (InvalidDate p)))"
proof (intro conjI impI)
  assume "m = None \<and> d \<noteq> None"
  then show "fuzzydate_new y m d = Inl (InvalidCombination y m d)"
    by (simp add: fuzzydate_new_def)
next
  assume a: "\<not> (m = None \<and> d \<noteq> None) \<and> valid_date y (or_one m) (or_one d)"
  then have "fuzzydate_new y m d =
    Inr \<lparr>year = y, month = or_one m, day = or_one d,
         fuzzy_month = (m = None), fuzzy_day = (d = None)\<rparr>"
    by (simp add: fuzzydate_new_valid)
  with a show "\<exists>self. fuzzydate_new y m d = Inr self \<and> year self = y \<and>
         logical_month self = m \<and> logical_day self = d \<and>
         fuzzy_month self = (m = None) \<and> fuzzy_day self = (d = None)"
    by (auto simp: or_one_def logical_month_def logical_day_def split: option.splits)
next
  assume a: "\<not> (m = None \<and> d \<noteq> None) \<and> \<not> valid_date y (or_one m) (or_one d)"
  then obtain p where "date_new y (or_one m) (or_one d) = Inl (InvalidDate p)"
    using date_new_invalid by blast
  with a show "\<exists>p. fuzzydate_new y m d = Inl (InvalidDate p)"
    by (auto simp: fuzzydate_new_def or_one_def split: option.splits)
qed

theorem fuzzydate_new_contract_witness:
  "fuzzydate_new 2020 None (Some 27) = Inl (InvalidCombination 2020 None (Some 27)) \<and>
   (\<exists>self. fuzzydate_new 2020 (Some 6) None = Inr self \<and> year self = 2020 \<and>
      logical_month self = Some 6 \<and> logical_day self = None \<and>
      \<not> fuzzy_month self \<and> fuzzy_day self) \<and>
   (\<exists>p. fuzzydate_new 2021 (Some 2) (Some 29) = Inl (InvalidDate p))"
  using fuzzydate_new_contract [of None "Some 27" 2020]
    fuzzydate_new_contract [of "Some 6" None 2020]
    fuzzydate_new_contract [of "Some 2" "Some 29" 2021]
  by (simp add: valid_date_def or_one_def month_length_def is_leap_def)

end
